theory Spec2Isabelle
  imports Complex_Main "HOL-Library.Sublist"
begin

section \<open>JavaScript values and strings\<close>

text \<open>
  The server of \<^verbatim>\<open>src/index.js\<close> reads untyped request data: the fields of a multipart
  form or of a JSON body, query parameters and path parameters. They are modelled by the
  datatype \<open>jsval\<close>. A string is a list of 8-bit characters (code units below 256);
  a number is an integer, which is what JavaScript computes exactly on integers of
  magnitude below \<open>2 ^ 53\<close>; \<open>JNaN\<close> is the not-a-number value that \<open>parseInt\<close> returns
  on text without digits. Fractions are not represented.
\<close>

datatype jsval =
    JUndefined
  | JNull
  | JBool bool
  | JNum int
  | JNaN
  | JStr string
  | JArr "jsval list"
  | JObj "(string \<times> jsval) list"

text \<open>Truthiness, as tested by \<open>if (v)\<close>, \<open>v || d\<close> and \<open>v ? a : b\<close>.\<close>

fun truthy :: "jsval \<Rightarrow> bool" where
  "truthy JUndefined = False"
| "truthy JNull = False"
| "truthy (JBool b) = b"
| "truthy (JNum n) = (n \<noteq> 0)"
| "truthy JNaN = False"
| "truthy (JStr s) = (s \<noteq> [])"
| "truthy (JArr xs) = True"
| "truthy (JObj kvs) = True"

text \<open>\<open>a || b\<close>\<close>

definition js_or :: "jsval \<Rightarrow> jsval \<Rightarrow> jsval" where
  "js_or a b = (if truthy a then a else b)"

text \<open>Property access \<open>v.k\<close> on a value that is not null or undefined.\<close>

fun get_prop :: "jsval \<Rightarrow> string \<Rightarrow> jsval" where
  "get_prop (JObj kvs) k = (case map_of kvs k of None \<Rightarrow> JUndefined | Some v \<Rightarrow> v)"
| "get_prop v k = JUndefined"

text \<open>Optional chaining \<open>v?.k\<close>.\<close>

fun opt_prop :: "jsval \<Rightarrow> string \<Rightarrow> jsval" where
  "opt_prop JUndefined k = JUndefined"
| "opt_prop JNull k = JUndefined"
| "opt_prop v k = get_prop v k"

subsection \<open>Decimal text of a number\<close>

fun string_of_nat :: "nat \<Rightarrow> string" where
  "string_of_nat n =
     (if n < 10 then [char_of (48 + n)]
      else string_of_nat (n div 10) @ [char_of (48 + n mod 10)])"

declare string_of_nat.simps [simp del]

definition string_of_int :: "int \<Rightarrow> string" where
  "string_of_int i =
     (if i < 0 then CHR ''-'' # string_of_nat (nat (- i)) else string_of_nat (nat i))"

definition intercalate :: "string \<Rightarrow> string list \<Rightarrow> string" where
  "intercalate sep xs = (case xs of [] \<Rightarrow> [] | y # ys \<Rightarrow> y @ concat (map (\<lambda>z. sep @ z) ys))"

text \<open>\<open>String(v)\<close>, the conversion that \<open>parseInt\<close> and template literals apply.\<close>

fun toString :: "jsval \<Rightarrow> string" where
  "toString JUndefined = ''undefined''"
| "toString JNull = ''null''"
| "toString (JBool b) = (if b then ''true'' else ''false'')"
| "toString (JNum n) = string_of_int n"
| "toString JNaN = ''NaN''"
| "toString (JStr s) = s"
| "toString (JArr xs) =
     intercalate '','' (map (\<lambda>x. if x = JUndefined \<or> x = JNull then [] else toString x) xs)"
| "toString (JObj kvs) = ''[object Object]''"

subsection \<open>Strings\<close>

text \<open>White space and line terminators with a code below 256.\<close>

definition is_ws :: "char \<Rightarrow> bool" where
  "is_ws c = (c \<in> set [CHR 0x09, CHR 0x0A, CHR 0x0B, CHR 0x0C, CHR 0x0D, CHR 0x20, CHR 0xA0])"

text \<open>\<open>s.trim()\<close>\<close>

definition js_trim :: "string \<Rightarrow> string" where
  "js_trim s = rev (dropWhile is_ws (rev (dropWhile is_ws s)))"

text \<open>\<open>s.includes(t)\<close>\<close>

fun js_includes :: "string \<Rightarrow> string \<Rightarrow> bool" where
  "js_includes [] t = (t = [])"
| "js_includes (c # cs) t = (prefix t (c # cs) \<or> js_includes cs t)"

text \<open>
  \<open>s.split(sep)\<close>: the pieces of \<open>s\<close> between the occurrences of \<open>sep\<close>, found from the
  left; an empty separator splits into single characters.
\<close>

function split_from :: "string \<Rightarrow> string \<Rightarrow> string \<Rightarrow> string list" where
  "split_from sep cur [] = [rev cur]"
| "split_from sep cur (c # cs) =
     (if sep \<noteq> [] \<and> prefix sep (c # cs)
      then rev cur # split_from sep [] (drop (length sep) (c # cs))
      else split_from sep (c # cur) cs)"
  by pat_completeness auto
termination
  by (relation "measure (\<lambda>(sep, cur, rest). length rest)") auto

definition js_split :: "string \<Rightarrow> string \<Rightarrow> string list" where
  "js_split s sep = (if sep = [] then map (\<lambda>c. [c]) s else split_from sep [] s)"

text \<open>\<open>xs[i]\<close> on an array of strings: \<open>undefined\<close> out of range.\<close>

definition js_nth :: "string list \<Rightarrow> nat \<Rightarrow> jsval" where
  "js_nth xs i = (if i < length xs then JStr (xs ! i) else JUndefined)"

subsection \<open>parseInt\<close>

text \<open>
  \<open>parseInt(v, radix)\<close> after ECMAScript: the text of \<open>v\<close> without leading white space,
  an optional sign, an optional \<open>0x\<close> prefix when the radix is absent (written \<open>0\<close>) or
  16, then the longest run of digits of the radix; \<open>NaN\<close> when that run is empty.
\<close>

definition digit_val :: "char \<Rightarrow> nat option" where
  "digit_val c =
     (let n = (of_char c :: nat) in
      if 48 \<le> n \<and> n \<le> 57 then Some (n - 48)
      else if 97 \<le> n \<and> n \<le> 122 then Some (n - 87)
      else if 65 \<le> n \<and> n \<le> 90 then Some (n - 55)
      else None)"

definition is_digit :: "nat \<Rightarrow> char \<Rightarrow> bool" where
  "is_digit r c = (case digit_val c of None \<Rightarrow> False | Some d \<Rightarrow> d < r)"

definition digits_value :: "nat \<Rightarrow> string \<Rightarrow> int" where
  "digits_value r ds =
     foldl (\<lambda>a c. a * int r + (case digit_val c of None \<Rightarrow> 0 | Some d \<Rightarrow> int d)) 0 ds"

definition parseInt :: "jsval \<Rightarrow> nat \<Rightarrow> jsval" where
  "parseInt v radix =
     (let s = dropWhile is_ws (toString v);
          neg = (case s of [] \<Rightarrow> False | c # _ \<Rightarrow> c = CHR ''-'');
          s1 = (case s of [] \<Rightarrow> [] | c # t \<Rightarrow> if c = CHR ''-'' \<or> c = CHR ''+'' then t else s);
          hex = ((radix = 0 \<or> radix = 16) \<and> (prefix ''0x'' s1 \<or> prefix ''0X'' s1));
          r = (if hex then 16 else if radix = 0 then 10 else radix);
          s2 = (if hex then drop 2 s1 else s1);
          ds = takeWhile (is_digit r) s2
      in if radix \<noteq> 0 \<and> (radix < 2 \<or> 36 < radix) then JNaN
         else if ds = [] then JNaN
         else JNum ((if neg then - 1 else 1) * digits_value r ds))"

subsection \<open>Paths\<close>

text \<open>
  \<open>path.extname(p)\<close> of Node (POSIX): trailing separators are ignored, the last path
  component is taken, and the result runs from its last dot to its end; it is empty
  when that component has no dot, when its last dot is its first character, and when
  the component is \<open>..\<close>.
\<close>

definition extname :: "string \<Rightarrow> string" where
  "extname p =
     (let q = rev (dropWhile (\<lambda>c. c = CHR ''/'') (rev p));
          b = rev (takeWhile (\<lambda>c. c \<noteq> CHR ''/'') (rev q));
          e = rev (takeWhile (\<lambda>c. c \<noteq> CHR ''.'') (rev b))
      in if length e = length b \<or> length e + 1 = length b \<or> b = ''..'' then []
         else CHR ''.'' # e)"

text \<open>
  \<open>path.join\<close> of Node (POSIX): the non-empty arguments are joined with \<open>/\<close> and the
  result is normalised: empty and \<open>.\<close> segments go, \<open>..\<close> removes the segment before
  it, and is kept only in a relative path that has no segment left to remove.
\<close>

fun normalizeString :: "bool \<Rightarrow> string list \<Rightarrow> string list \<Rightarrow> string list" where
  "normalizeString allowAboveRoot res [] = rev res"
| "normalizeString allowAboveRoot res (seg # segs) =
     (if seg = [] \<or> seg = ''.'' then normalizeString allowAboveRoot res segs
      else if seg = ''..'' then
        (if res \<noteq> [] \<and> hd res \<noteq> ''..'' then normalizeString allowAboveRoot (tl res) segs
         else if allowAboveRoot then normalizeString allowAboveRoot (''..'' # res) segs
         else normalizeString allowAboveRoot res segs)
      else normalizeString allowAboveRoot (seg # res) segs)"

definition path_normalize :: "string \<Rightarrow> string" where
  "path_normalize p =
     (if p = [] then ''.''
      else
        let isAbsolute = (hd p = CHR ''/'');
            trailingSeparator = (last p = CHR ''/'');
            body = intercalate ''/'' (normalizeString (\<not> isAbsolute) [] (js_split p ''/''))
        in if body = [] then (if isAbsolute then ''/'' else if trailingSeparator then ''./'' else ''.'')
           else (if isAbsolute then ''/'' else []) @ body @ (if trailingSeparator then ''/'' else []))"

definition path_join :: "string list \<Rightarrow> string" where
  "path_join parts =
     (let joined = intercalate ''/'' (filter (\<lambda>a. a \<noteq> []) parts)
      in if joined = [] then ''.'' else path_normalize joined)"

subsection \<open>The regular expressions of the record store\<close>

text \<open>
  The search route hands the query text to the store as a regular expression with the
  option \<open>i\<close> (\<open>$regex\<close>, a Perl-compatible expression searched anywhere in the field).
  A fragment of that language is modelled here: a pattern made of ordinary ASCII
  characters (the code 0 apart), of the dot (any character but a line feed) and of a
  backslash followed by an ASCII character that is neither a letter nor a digit (that
  character itself). Letters are compared without case. What the store does with any
  other pattern is a parameter of the model (\<open>regex_other\<close> below).
\<close>

definition to_lower :: "char \<Rightarrow> char" where
  "to_lower c = (let n = (of_char c :: nat) in if 65 \<le> n \<and> n \<le> 90 then char_of (n + 32) else c)"

definition is_meta :: "char \<Rightarrow> bool" where
  "is_meta c = (c \<in> set [CHR 0x5C, CHR ''^'', CHR ''$'', CHR ''.'', CHR ''['', CHR '']'', CHR ''|'',
                          CHR ''('', CHR '')'', CHR ''?'', CHR ''*'', CHR ''+'', CHR ''{'', CHR ''}''])"

text \<open>A character that stands for itself in a pattern.\<close>

definition plain_char :: "char \<Rightarrow> bool" where
  "plain_char c = (0 < (of_char c :: nat) \<and> (of_char c :: nat) < 128 \<and> \<not> is_meta c)"

datatype atom = Lit char | AnyChar

fun compile_fragment :: "string \<Rightarrow> atom list option" where
  "compile_fragment [] = Some []"
| "compile_fragment (c # cs) =
     (if c = CHR ''.'' then map_option (Cons AnyChar) (compile_fragment cs)
      else if c = CHR 0x5C then
        (case cs of
           [] \<Rightarrow> None
         | d # ds \<Rightarrow>
             if 0 < (of_char d :: nat) \<and> (of_char d :: nat) < 128 \<and> digit_val d = None
             then map_option (Cons (Lit d)) (compile_fragment ds) else None)
      else if plain_char c then map_option (Cons (Lit c)) (compile_fragment cs)
      else None)"

fun atom_matches :: "atom \<Rightarrow> char \<Rightarrow> bool" where
  "atom_matches (Lit l) c = (to_lower l = to_lower c)"
| "atom_matches AnyChar c = (c \<noteq> CHR 0x0A)"

fun match_here :: "atom list \<Rightarrow> string \<Rightarrow> bool" where
  "match_here [] s = True"
| "match_here (a # as) [] = False"
| "match_here (a # as) (c # cs) = (atom_matches a c \<and> match_here as cs)"

fun match_anywhere :: "atom list \<Rightarrow> string \<Rightarrow> bool" where
  "match_anywhere as [] = match_here as []"
| "match_anywhere as (c # cs) = (match_here as (c # cs) \<or> match_anywhere as cs)"

section \<open>Data model\<close>

text \<open>
  A creature record as the routes build and read it: \<open>id\<close>, \<open>name.french\<close>, \<open>type\<close>,
  the six statistics of \<open>base\<close>, and \<open>image\<close>. The fields that come from request data
  hold the values the code computes for them.
\<close>

record stats =
  HP :: jsval
  Attack :: jsval
  Defense :: jsval
  SpecialAttack :: jsval
  SpecialDefense :: jsval
  Speed :: jsval

record pokemon =
  p_id :: int
  p_name_french :: jsval
  p_type :: jsval
  p_base :: stats
  p_image :: jsval

text \<open>
  \<open>req.file\<close>, as the upload middleware leaves it: the name the client gave the file,
  and the path of the temporary file \<^verbatim>\<open>temp_<time><extension>\<close> it was written to.
\<close>

record req_file =
  f_originalname :: string
  f_path :: string

text \<open>
  The state: the documents of the record store in their natural order, and the regular
  files of the file system by path. Every document has a numeric id. Directories and
  permissions are not represented: a path that names no regular file is absent.
\<close>

record state =
  docs :: "pokemon list"
  files :: "string \<rightharpoonup> string"

text \<open>
  What the code under \<^verbatim>\<open>src/\<close> does not fix is a parameter: whether the store can be
  reached during the request, which documents the schema (\<^verbatim>\<open>schema/pokemon.js\<close>) accepts
  on \<open>save\<close>, which update sets it can cast, what the store does with a regular
  expression outside the modelled fragment (\<open>None\<close>: it rejects the pattern), and the
  directory of the program, \<open>__dirname\<close>.
\<close>

record env =
  db_ok :: bool
  accepts :: "pokemon list \<Rightarrow> pokemon \<Rightarrow> bool"
  castable :: "(string \<times> jsval) list \<Rightarrow> bool"
  regex_other :: "string \<Rightarrow> (string \<Rightarrow> bool) option"
  dirname :: string

datatype error = StoreError | ValidationError | CastError | RegexError | BadValue | ENOENT | TypeError

datatype body =
    PageBody int int "pokemon list"
  | DocsBody "pokemon list"
  | DocBody pokemon
  | MessageBody string
  | ErrorBody string
  | ErrorMessage error

datatype response = Response nat body

section \<open>The file system\<close>

definition existsSync :: "(string \<rightharpoonup> string) \<Rightarrow> string \<Rightarrow> bool" where
  "existsSync fs p = (fs p \<noteq> None)"

definition unlinkSync :: "(string \<rightharpoonup> string) \<Rightarrow> string \<Rightarrow> error + (string \<rightharpoonup> string)" where
  "unlinkSync fs p = (case fs p of None \<Rightarrow> Inl ENOENT | Some c \<Rightarrow> Inr (fs(p := None)))"

definition renameSync ::
  "(string \<rightharpoonup> string) \<Rightarrow> string \<Rightarrow> string \<Rightarrow> error + (string \<rightharpoonup> string)" where
  "renameSync fs src dst =
     (case fs src of None \<Rightarrow> Inl ENOENT | Some c \<Rightarrow> Inr ((fs(src := None))(dst \<mapsto> c)))"

section \<open>The record store\<close>



text \<open>The pattern with the option \<open>i\<close>, compiled: \<open>None\<close> when the store rejects it.\<close>

definition regex_i :: "env \<Rightarrow> string \<Rightarrow> (string \<Rightarrow> bool) option" where
  "regex_i env pat =
     (case compile_fragment pat of
        Some as \<Rightarrow> Some (match_anywhere as)
      | None \<Rightarrow> regex_other env pat)"

text \<open>
  A field matches a regular expression when it is a string that matches, or an array
  with such a string among its elements.
\<close>

fun field_matches :: "(string \<Rightarrow> bool) \<Rightarrow> jsval \<Rightarrow> bool" where
  "field_matches m (JStr s) = m s"
| "field_matches m (JArr vs) = list_ex (\<lambda>v. case v of JStr s \<Rightarrow> m s | _ \<Rightarrow> False) vs"
| "field_matches m v = False"

text \<open>\<open>find({ 'name.french': { $regex: pat, $options: 'i' } })\<close>\<close>

definition find_regex :: "env \<Rightarrow> pokemon list \<Rightarrow> string \<Rightarrow> error + pokemon list" where
  "find_regex env ds pat =
     (if \<not> db_ok env then Inl StoreError
      else case regex_i env pat of
        None \<Rightarrow> Inl RegexError
      | Some m \<Rightarrow> Inr (filter (\<lambda>p. field_matches m (p_name_french p)) ds))"

text \<open>\<open>findOne({ id: v })\<close>: the first document with that id; \<open>NaN\<close> cannot be cast.\<close>

definition findOne_id :: "env \<Rightarrow> pokemon list \<Rightarrow> jsval \<Rightarrow> error + pokemon option" where
  "findOne_id env ds v =
     (if \<not> db_ok env then Inl StoreError
      else case v of
        JNum n \<Rightarrow> Inr (find (\<lambda>p. p_id p = n) ds)
      | _ \<Rightarrow> Inl CastError)"

text \<open>\<open>findOne().sort({ id: -1 })\<close>: a document of greatest id, if there is any document.\<close>

definition findOne_last :: "env \<Rightarrow> pokemon list \<Rightarrow> error + pokemon option" where
  "findOne_last env ds =
     (if \<not> db_ok env then Inl StoreError
      else Inr (case ds of
                  [] \<Rightarrow> None
                | d # ds' \<Rightarrow> Some (foldl (\<lambda>m x. if p_id m < p_id x then x else m) d ds')))"

text \<open>\<open>new pokemon(p).save()\<close>: the document is stored as built, or rejected.\<close>

definition save :: "env \<Rightarrow> pokemon list \<Rightarrow> pokemon \<Rightarrow> error + pokemon list" where
  "save env ds p =
     (if \<not> db_ok env then Inl StoreError
      else if accepts env ds p then Inr (ds @ [p])
      else Inl ValidationError)"

fun remove_first :: "('a \<Rightarrow> bool) \<Rightarrow> 'a list \<Rightarrow> 'a list" where
  "remove_first P [] = []"
| "remove_first P (x # xs) = (if P x then xs else x # remove_first P xs)"

fun update_first :: "('a \<Rightarrow> bool) \<Rightarrow> ('a \<Rightarrow> 'a) \<Rightarrow> 'a list \<Rightarrow> 'a list" where
  "update_first P f [] = []"
| "update_first P f (x # xs) = (if P x then f x # xs else x # update_first P f xs)"

text \<open>\<open>findOneAndDelete({ id: v })\<close>\<close>

definition findOneAndDelete :: "env \<Rightarrow> pokemon list \<Rightarrow> jsval \<Rightarrow> error + pokemon list" where
  "findOneAndDelete env ds v =
     (if \<not> db_ok env then Inl StoreError
      else case v of
        JNum n \<Rightarrow> Inr (remove_first (\<lambda>p. p_id p = n) ds)
      | _ \<Rightarrow> Inl CastError)"

text \<open>\<open>$set\<close> with the keys the update route can put in its update set.\<close>

definition set_field :: "(string \<times> jsval) list \<Rightarrow> string \<Rightarrow> jsval \<Rightarrow> jsval" where
  "set_field updates k old = (case map_of updates k of None \<Rightarrow> old | Some v \<Rightarrow> v)"

definition apply_set :: "(string \<times> jsval) list \<Rightarrow> pokemon \<Rightarrow> pokemon" where
  "apply_set updates p =
     p\<lparr>p_name_french := set_field updates ''name.french'' (p_name_french p),
       p_type := set_field updates ''type'' (p_type p),
       p_base :=
         \<lparr>HP = set_field updates ''base.HP'' (HP (p_base p)),
          Attack = set_field updates ''base.Attack'' (Attack (p_base p)),
          Defense = set_field updates ''base.Defense'' (Defense (p_base p)),
          SpecialAttack = set_field updates ''base.SpecialAttack'' (SpecialAttack (p_base p)),
          SpecialDefense = set_field updates ''base.SpecialDefense'' (SpecialDefense (p_base p)),
          Speed = set_field updates ''base.Speed'' (Speed (p_base p))\<rparr>,
       p_image := set_field updates ''image'' (p_image p)\<rparr>"

text \<open>
  \<open>findOneAndUpdate({ id: v }, { $set: updates }, { new: true })\<close>: the new list of
  documents and the updated document, \<open>None\<close> when no document has that id.
\<close>

definition findOneAndUpdate ::
  "env \<Rightarrow> pokemon list \<Rightarrow> jsval \<Rightarrow> (string \<times> jsval) list \<Rightarrow> error + (pokemon list \<times> pokemon option)" where
  "findOneAndUpdate env ds v updates =
     (if \<not> db_ok env then Inl StoreError
      else case v of
        JNum n \<Rightarrow>
          if \<not> castable env updates then Inl CastError
          else Inr (update_first (\<lambda>p. p_id p = n) (apply_set updates) ds,
                    map_option (apply_set updates) (find (\<lambda>p. p_id p = n) ds))
      | _ \<Rightarrow> Inl CastError)"

section \<open>The routes\<close>

definition assets_url :: string where
  "assets_url = ''http://localhost:3000/assets/pokemons/''"

definition default_image :: string where
  "default_image = ''http://localhost:3000/assets/pokemons/default.png''"

text \<open>
  The storage of the upload middleware: an uploaded file is written to the asset
  directory itself, under the name \<^verbatim>\<open>temp_\<close>, the time in milliseconds and the extension
  of its original name.
\<close>

definition upload_destination :: "env \<Rightarrow> string" where
  "upload_destination env = path_join [dirname env, ''assets/pokemons'']"

definition upload_filename :: "int \<Rightarrow> string \<Rightarrow> string" where
  "upload_filename now originalname = ''temp_'' @ string_of_int now @ extname originalname"

text \<open>A field of \<open>req.body\<close>, \<open>undefined\<close> when the request does not have it.\<close>

definition raw_get :: "(string \<rightharpoonup> jsval) \<Rightarrow> string \<Rightarrow> jsval" where
  "raw_get raw k = (case raw k of None \<Rightarrow> JUndefined | Some v \<Rightarrow> v)"

subsection \<open>GET /pokemons\<close>



subsection \<open>GET /pokemons/search\<close>

text \<open>
  A query that is neither absent nor a string (an array or an object of the query
  string) has no \<open>trim\<close>: the call throws and the route answers 500.
\<close>

definition get_pokemons_search :: "env \<Rightarrow> jsval \<Rightarrow> state \<Rightarrow> response" where
  "get_pokemons_search env query_q s =
     (case js_or query_q (JStr []) of
        JStr query \<Rightarrow>
          if js_trim query = [] then Response 200 (DocsBody [])
          else (case find_regex env (docs s) query of
                  Inl e \<Rightarrow> Response 500 (ErrorBody ''Erreur serveur'')
                | Inr pokemons \<Rightarrow> Response 200 (DocsBody pokemons))
      | _ \<Rightarrow> Response 500 (ErrorBody ''Erreur serveur''))"

subsection \<open>GET /pokemons/:id\<close>

definition get_pokemon :: "env \<Rightarrow> string \<Rightarrow> state \<Rightarrow> response" where
  "get_pokemon env params_id s =
     (let pokeId = parseInt (JStr params_id) 10
      in case findOne_id env (docs s) pokeId of
           Inl e \<Rightarrow> Response 500 (ErrorBody ''Erreur serveur'')
         | Inr None \<Rightarrow> Response 404 (ErrorBody (''Non trouv'' @ [CHR 0xE9]))
         | Inr (Some poke) \<Rightarrow> Response 200 (DocBody poke))"

subsection \<open>POST /pokemons\<close>

text \<open>\<open>raw['name.french'] || raw.name?.french || raw.name\<close>\<close>

definition name_of :: "(string \<rightharpoonup> jsval) \<Rightarrow> jsval" where
  "name_of raw =
     js_or (js_or (raw_get raw ''name.french'') (opt_prop (raw_get raw ''name'') ''french''))
           (raw_get raw ''name'')"

text \<open>\<open>raw.type.split(',').map(t => t.trim())\<close> for a string\<close>

definition split_types :: "string \<Rightarrow> jsval" where
  "split_types t = JArr (map (\<lambda>t. JStr (js_trim t)) (js_split t '',''))"

definition type_of :: "(string \<rightharpoonup> jsval) \<Rightarrow> jsval" where
  "type_of raw =
     (case raw_get raw ''type'' of
        JStr t \<Rightarrow> split_types t
      | v \<Rightarrow> js_or v (JArr []))"

text \<open>\<open>parseInt(raw[k] || 0)\<close>\<close>

definition stat_of :: "(string \<rightharpoonup> jsval) \<Rightarrow> string \<Rightarrow> jsval" where
  "stat_of raw k = parseInt (js_or (raw_get raw k) (JNum 0)) 0"

definition base_of :: "(string \<rightharpoonup> jsval) \<Rightarrow> stats" where
  "base_of raw =
     \<lparr>HP = stat_of raw ''base.HP'',
      Attack = stat_of raw ''base.Attack'',
      Defense = stat_of raw ''base.Defense'',
      SpecialAttack = stat_of raw ''base.SpecialAttack'',
      SpecialDefense = stat_of raw ''base.SpecialDefense'',
      Speed = stat_of raw ''base.Speed''\<rparr>"

text \<open>
  The image step of both writing routes: the temporary file is renamed to the text of
  the id followed by the extension of the original name, in the asset directory; the
  result is the image URL and the new file system.
\<close>

definition final_path :: "env \<Rightarrow> string \<Rightarrow> string" where
  "final_path env finalName = path_join [dirname env, ''assets/pokemons'', finalName]"

definition move_image ::
  "env \<Rightarrow> req_file \<Rightarrow> string \<Rightarrow> (string \<rightharpoonup> string) \<Rightarrow> error + (string \<times> (string \<rightharpoonup> string))" where
  "move_image env f id_text fs =
     (let extension = extname (f_originalname f);
          finalName = id_text @ extension;
          finalPath = final_path env finalName
      in case renameSync fs (f_path f) finalPath of
           Inl e \<Rightarrow> Inl e
         | Inr fs' \<Rightarrow> Inr (assets_url @ finalName, fs'))"

text \<open>
  The \<open>catch\<close> block of both writing routes:
  \<open>if (req.file && fs.existsSync(req.file.path)) fs.unlinkSync(req.file.path)\<close>.
\<close>

definition cleanup_temp :: "req_file option \<Rightarrow> (string \<rightharpoonup> string) \<Rightarrow> (string \<rightharpoonup> string)" where
  "cleanup_temp file fs =
     (case file of
        None \<Rightarrow> fs
      | Some f \<Rightarrow>
          if existsSync fs (f_path f)
          then (case unlinkSync fs (f_path f) of Inl e \<Rightarrow> fs | Inr fs' \<Rightarrow> fs')
          else fs)"

text \<open>
  The \<open>try\<close> block: the error comes with the state in which it was thrown, the saved
  document with the final state.
\<close>

definition post_pokemons_try ::
  "env \<Rightarrow> (string \<rightharpoonup> jsval) \<Rightarrow> req_file option \<Rightarrow> state \<Rightarrow> (error \<times> state) + (pokemon \<times> state)" where
  "post_pokemons_try env raw file s =
     (case findOne_last env (docs s) of
        Inl e \<Rightarrow> Inl (e, s)
      | Inr lastPokemon \<Rightarrow>
          let new_id = (case lastPokemon of Some l \<Rightarrow> p_id l + 1 | None \<Rightarrow> 1)
          in case (case file of
                     Some f \<Rightarrow> move_image env f (string_of_int new_id) (files s)
                   | None \<Rightarrow> Inr (default_image, files s)) of
               Inl e \<Rightarrow> Inl (e, s)
             | Inr (image_url, fs') \<Rightarrow>
                 let newPokemonData =
                       \<lparr>p_id = new_id, p_name_french = name_of raw, p_type = type_of raw,
                        p_base = base_of raw, p_image = JStr image_url\<rparr>
                 in case save env (docs s) newPokemonData of
                      Inl e \<Rightarrow> Inl (e, s\<lparr>files := fs'\<rparr>)
                    | Inr ds' \<Rightarrow> Inr (newPokemonData, \<lparr>docs = ds', files = fs'\<rparr>))"

definition post_pokemons ::
  "env \<Rightarrow> (string \<rightharpoonup> jsval) \<Rightarrow> req_file option \<Rightarrow> state \<Rightarrow> response \<times> state" where
  "post_pokemons env raw file s =
     (case post_pokemons_try env raw file s of
        Inr (savedPokemon, s') \<Rightarrow> (Response 201 (DocBody savedPokemon), s')
      | Inl (e, s') \<Rightarrow>
          (Response 400 (ErrorMessage e), s'\<lparr>files := cleanup_temp file (files s')\<rparr>))"

subsection \<open>DELETE /pokemons/:id\<close>

text \<open>
  The image step of the deletion: nothing for an image that is absent or does not
  include \<^verbatim>\<open>/assets/pokemons/\<close>; otherwise the second piece of the split is the file name,
  and the file of that name in the asset directory is removed if it exists. An image
  that is not a string has no \<open>includes\<close> or no \<open>split\<close>, and the call throws.
\<close>

definition remove_image ::
  "env \<Rightarrow> jsval \<Rightarrow> (string \<rightharpoonup> string) \<Rightarrow> error + (string \<rightharpoonup> string)" where
  "remove_image env img fs =
     (if \<not> truthy img then Inr fs
      else case img of
        JStr im \<Rightarrow>
          if js_includes im ''/assets/pokemons/'' then
            (case js_nth (js_split im ''/assets/pokemons/'') 1 of
               JStr filename \<Rightarrow>
                 let filePath = path_join [dirname env, ''assets/pokemons'', filename]
                 in if existsSync fs filePath then unlinkSync fs filePath else Inr fs
             | _ \<Rightarrow> Inl TypeError)
          else Inr fs
      | JArr xs \<Rightarrow> if JStr ''/assets/pokemons/'' \<in> set xs then Inl TypeError else Inr fs
      | _ \<Rightarrow> Inl TypeError)"

text \<open>The message of a deletion, with its two accented letters as codes.\<close>

definition deleted_message :: string where
  "deleted_message = ''Supprim'' @ [CHR 0xE9] @ '' avec succ'' @ [CHR 0xE8] @ ''s''"

definition delete_pokemon :: "env \<Rightarrow> string \<Rightarrow> state \<Rightarrow> response \<times> state" where
  "delete_pokemon env params_id s =
     (let pokeId = parseInt (JStr params_id) 10
      in case findOne_id env (docs s) pokeId of
           Inl e \<Rightarrow> (Response 500 (ErrorBody ''Erreur serveur''), s)
         | Inr None \<Rightarrow> (Response 404 (ErrorBody ''Introuvable''), s)
         | Inr (Some p) \<Rightarrow>
             (case remove_image env (p_image p) (files s) of
                Inl e \<Rightarrow> (Response 500 (ErrorBody ''Erreur serveur''), s)
              | Inr fs' \<Rightarrow>
                  (case findOneAndDelete env (docs s) pokeId of
                     Inl e \<Rightarrow> (Response 500 (ErrorBody ''Erreur serveur''), s\<lparr>files := fs'\<rparr>)
                   | Inr ds' \<Rightarrow>
                       (Response 200 (MessageBody deleted_message),
                        \<lparr>docs = ds', files = fs'\<rparr>))))"

subsection \<open>PUT /pokemons/:id\<close>

text \<open>\<open>if (raw[k]) updates[k] = parseInt(raw[k])\<close>\<close>

definition stat_update :: "(string \<rightharpoonup> jsval) \<Rightarrow> string \<Rightarrow> (string \<times> jsval) list" where
  "stat_update raw k = (if truthy (raw_get raw k) then [(k, parseInt (raw_get raw k) 0)] else [])"

text \<open>The update set before the image step, in the order of the assignments.\<close>

definition field_updates :: "(string \<rightharpoonup> jsval) \<Rightarrow> (string \<times> jsval) list" where
  "field_updates raw =
     (if truthy (raw_get raw ''name.french'')
      then [(''name.french'', raw_get raw ''name.french'')] else [])
     @ stat_update raw ''base.HP''
     @ stat_update raw ''base.Attack''
     @ stat_update raw ''base.Defense''
     @ stat_update raw ''base.SpecialAttack''
     @ stat_update raw ''base.SpecialDefense''
     @ stat_update raw ''base.Speed''
     @ (if truthy (raw_get raw ''type'')
        then [(''type'', case raw_get raw ''type'' of JStr t \<Rightarrow> split_types t | v \<Rightarrow> v)]
        else [])"

definition put_pokemon_try ::
  "env \<Rightarrow> string \<Rightarrow> (string \<rightharpoonup> jsval) \<Rightarrow> req_file option \<Rightarrow> state
     \<Rightarrow> (error \<times> state) + (pokemon option \<times> state)" where
  "put_pokemon_try env params_id raw file s =
     (let pokeId = parseInt (JStr params_id) 10;
          updates = field_updates raw
      in case (case file of
                 Some f \<Rightarrow>
                   (case move_image env f (toString pokeId) (files s) of
                      Inl e \<Rightarrow> Inl e
                    | Inr (image_url, fs') \<Rightarrow> Inr (updates @ [(''image'', JStr image_url)], fs'))
               | None \<Rightarrow> Inr (updates, files s)) of
           Inl e \<Rightarrow> Inl (e, s)
         | Inr (updates', fs') \<Rightarrow>
             (case findOneAndUpdate env (docs s) pokeId updates' of
                Inl e \<Rightarrow> Inl (e, s\<lparr>files := fs'\<rparr>)
              | Inr (ds', updated) \<Rightarrow> Inr (updated, \<lparr>docs = ds', files = fs'\<rparr>)))"

definition put_pokemon ::
  "env \<Rightarrow> string \<Rightarrow> (string \<rightharpoonup> jsval) \<Rightarrow> req_file option \<Rightarrow> state \<Rightarrow> response \<times> state" where
  "put_pokemon env params_id raw file s =
     (case put_pokemon_try env params_id raw file s of
        Inr (Some updated, s') \<Rightarrow> (Response 200 (DocBody updated), s')
      | Inr (None, s') \<Rightarrow> (Response 404 (ErrorBody ''Introuvable''), s')
      | Inl (e, s') \<Rightarrow>
          (Response 500 (ErrorMessage e), s'\<lparr>files := cleanup_temp file (files s')\<rparr>))"

section \<open>Notions of the specification\<close>

text \<open>
  The specification speaks of a name that contains the query as a case-insensitive
  substring: some piece of the name equals the query once the letters \<open>A\<close> to \<open>Z\<close>
  of both are put in lower case. It is stated with \<open>sublist\<close>, apart from the matcher of
  the store.
\<close>

definition contains_ci :: "string \<Rightarrow> string \<Rightarrow> bool" where
  "contains_ci x s = sublist (map to_lower x) (map to_lower s)"

definition name_contains :: "string \<Rightarrow> pokemon \<Rightarrow> bool" where
  "name_contains x p = field_matches (contains_ci x) (p_name_french p)"

text \<open>The six statistics: the form field and the field of the record.\<close>

definition stat_fields :: "(string \<times> (stats \<Rightarrow> jsval)) list" where
  "stat_fields =
     [(''base.HP'', HP), (''base.Attack'', Attack), (''base.Defense'', Defense),
      (''base.SpecialAttack'', SpecialAttack), (''base.SpecialDefense'', SpecialDefense),
      (''base.Speed'', Speed)]"

text \<open>A non-negative statistic, as the specification's data model has it.\<close>

fun non_negative :: "jsval \<Rightarrow> bool" where
  "non_negative (JNum n) = (0 \<le> n)"
| "non_negative v = False"

text \<open>Two documents that differ in \<open>base.HP\<close> at most.\<close>

definition same_but_HP :: "pokemon \<Rightarrow> pokemon \<Rightarrow> bool" where
  "same_but_HP p p' =
     (p_id p' = p_id p \<and> p_name_french p' = p_name_french p \<and> p_type p' = p_type p \<and>
      p_image p' = p_image p \<and>
      Attack (p_base p') = Attack (p_base p) \<and> Defense (p_base p') = Defense (p_base p) \<and>
      SpecialAttack (p_base p') = SpecialAttack (p_base p) \<and>
      SpecialDefense (p_base p') = SpecialDefense (p_base p) \<and>
      Speed (p_base p') = Speed (p_base p))"

section \<open>Example data\<close>

text \<open>
  A store that is reachable and whose schema accepts every document and every update
  set, a program directory, two records, the files of the asset directory, an upload
  and some forms.
\<close>

definition accept_all :: "pokemon list \<Rightarrow> pokemon \<Rightarrow> bool" where
  "accept_all ds p = True"

definition reject_all :: "pokemon list \<Rightarrow> pokemon \<Rightarrow> bool" where
  "reject_all ds p = False"

definition cast_all :: "(string \<times> jsval) list \<Rightarrow> bool" where
  "cast_all updates = True"

definition reject_pattern :: "string \<Rightarrow> (string \<Rightarrow> bool) option" where
  "reject_pattern pat = None"

definition open_env :: env where
  "open_env =
     \<lparr>db_ok = True, accepts = accept_all, castable = cast_all, regex_other = reject_pattern,
      dirname = ''/app''\<rparr>"

definition strict_env :: env where
  "strict_env = open_env\<lparr>accepts := reject_all\<rparr>"

definition down_env :: env where
  "down_env = open_env\<lparr>db_ok := False\<rparr>"

definition bulbizarre :: pokemon where
  "bulbizarre =
     \<lparr>p_id = 1, p_name_french = JStr ''Bulbizarre'',
      p_type = JArr [JStr ''Grass'', JStr ''Poison''],
      p_base = \<lparr>HP = JNum 45, Attack = JNum 49, Defense = JNum 49, SpecialAttack = JNum 65,
                SpecialDefense = JNum 65, Speed = JNum 45\<rparr>,
      p_image = JStr ''http://localhost:3000/assets/pokemons/default.png''\<rparr>"

definition pikachu :: pokemon where
  "pikachu =
     \<lparr>p_id = 25, p_name_french = JStr ''Pikachu'', p_type = JArr [JStr ''Electric''],
      p_base = \<lparr>HP = JNum 35, Attack = JNum 55, Defense = JNum 40, SpecialAttack = JNum 50,
                SpecialDefense = JNum 50, Speed = JNum 90\<rparr>,
      p_image = JStr ''http://localhost:3000/assets/pokemons/25.png''\<rparr>"

definition default_png :: string where
  "default_png = ''/app/assets/pokemons/default.png''"

definition temp_jpg :: string where
  "temp_jpg = ''/app/assets/pokemons/temp_1700000000000.jpg''"

definition example_files :: "string \<rightharpoonup> string" where
  "example_files =
     [default_png \<mapsto> ''placeholder'', ''/app/assets/pokemons/25.png'' \<mapsto> ''pikachu'',
      temp_jpg \<mapsto> ''upload'']"

definition example_state :: state where
  "example_state = \<lparr>docs = [bulbizarre, pikachu], files = example_files\<rparr>"

definition photo :: req_file where
  "photo = \<lparr>f_originalname = ''photo.jpg'', f_path = temp_jpg\<rparr>"

definition salameche_form :: "string \<rightharpoonup> jsval" where
  "salameche_form =
     [''name.french'' \<mapsto> JStr ''Salameche'', ''type'' \<mapsto> JStr ''Fire'',
      ''base.HP'' \<mapsto> JStr ''39'', ''base.Attack'' \<mapsto> JStr ''-5'']"

definition salameche :: "string \<Rightarrow> pokemon" where
  "salameche img =
     \<lparr>p_id = 26, p_name_french = JStr ''Salameche'', p_type = JArr [JStr ''Fire''],
      p_base = \<lparr>HP = JNum 39, Attack = JNum (- 5), Defense = JNum 0, SpecialAttack = JNum 0,
                SpecialDefense = JNum 0, Speed = JNum 0\<rparr>,
      p_image = JStr img\<rparr>"



definition hp_form :: "jsval \<Rightarrow> (string \<rightharpoonup> jsval)" where
  "hp_form v = [''base.HP'' \<mapsto> v]"

section \<open>Evaluation and auxiliary facts\<close>

lemma with_snd: "fst x = a \<Longrightarrow> x = (a, snd x)"
  by (cases x) simp

text \<open>The fold of \<open>findOne_last\<close> picks a document of the list whose id is greatest.\<close>

lemma last_greatest:
  "foldl (\<lambda>m x. if p_id m < p_id x then x else m) d ds \<in> set (d # ds) \<and>
   (\<forall>y \<in> set (d # ds). p_id y \<le> p_id (foldl (\<lambda>m x. if p_id m < p_id x then x else m) d ds))"
proof (induction ds arbitrary: d)
  case Nil
  then show ?case by simp
next
  case (Cons x xs)
  show ?case
  proof (cases "p_id d < p_id x")
    case True
    with Cons.IH [of x] show ?thesis by auto
  next
    case False
    with Cons.IH [of d] show ?thesis by auto
  qed
qed

lemma last_id:
  "p_id (foldl (\<lambda>m x. if p_id m < p_id x then x else m) d ds) = Max (p_id ` set (d # ds))"
proof (rule sym, rule Max_eqI)
  show "finite (p_id ` set (d # ds))" by simp
next
  fix y assume "y \<in> p_id ` set (d # ds)"
  then show "y \<le> p_id (foldl (\<lambda>m x. if p_id m < p_id x then x else m) d ds)"
    using last_greatest [of d ds] by auto
next
  show "p_id (foldl (\<lambda>m x. if p_id m < p_id x then x else m) d ds) \<in> p_id ` set (d # ds)"
    using last_greatest [of d ds] by blast
qed

lemma findOne_last_id:
  "findOne_last env ds = Inr l \<Longrightarrow>
     (case l of Some d \<Rightarrow> p_id d + 1 | None \<Rightarrow> 1) =
     (if ds = [] then 1 else Max (p_id ` set ds) + 1)"
  by (cases ds) (auto simp: findOne_last_def last_id split: if_splits simp del: foldl_Cons)

text \<open>The two outcomes of the creation route, read back from its response.\<close>

lemma post_pokemons_try_Inr:
  assumes "post_pokemons_try env raw file s = Inr (p, s')"
  shows "p_id p = (if docs s = [] then 1 else Max (p_id ` set (docs s)) + 1) \<and>
         docs s' = docs s @ [p]"
  using assms findOne_last_id [of env "docs s"]
  by (auto simp: post_pokemons_try_def save_def Let_def
      split: sum.splits if_splits option.splits prod.splits)

lemma post_pokemons_created:
  "post_pokemons env raw file s = (Response 201 b, s') \<Longrightarrow>
     \<exists>p. b = DocBody p \<and> post_pokemons_try env raw file s = Inr (p, s')"
  by (auto simp: post_pokemons_def split: sum.splits prod.splits)

lemma post_pokemons_failed:
  "post_pokemons env raw file s = (Response st b, s') \<Longrightarrow> st \<noteq> 201 \<Longrightarrow>
     \<exists>e s1. post_pokemons_try env raw file s = Inl (e, s1) \<and> st = 400 \<and> b = ErrorMessage e \<and>
            s' = s1\<lparr>files := cleanup_temp file (files s1)\<rparr>"
  by (auto simp: post_pokemons_def split: sum.splits prod.splits)

lemma post_pokemons_try_Inl_docs:
  "post_pokemons_try env raw file s = Inl (e, s1) \<Longrightarrow> docs s1 = docs s"
  by (auto simp: post_pokemons_try_def Let_def split: sum.splits option.splits prod.splits)

lemma cleanup_temp_eq: "cleanup_temp (Some f) fs = fs(f_path f := None)"
  by (auto simp: cleanup_temp_def existsSync_def unlinkSync_def split: option.splits)

text \<open>The example requests, evaluated.\<close>

lemma run_create_plain:
  "fst (post_pokemons open_env salameche_form None example_state) =
     Response 201 (DocBody (salameche default_image))"
  by code_simp

lemma run_create_photo:
  "fst (post_pokemons open_env salameche_form (Some photo) example_state) =
     Response 201 (DocBody (salameche ''http://localhost:3000/assets/pokemons/26.jpg''))"
  by code_simp

lemma run_create_rejected:
  "fst (post_pokemons strict_env salameche_form (Some photo) example_state) =
     Response 400 (ErrorMessage ValidationError)"
  by code_simp

lemma run_create_down:
  "fst (post_pokemons down_env salameche_form (Some photo) example_state) =
     Response 400 (ErrorMessage StoreError)"
  by code_simp

text \<open>
  A creation succeeds when the store is reachable, the schema accepts the document and
  the temporary file of the upload, if there is an upload, exists.
\<close>

lemma post_pokemons_succeeds:
  assumes "db_ok env" and "\<forall>p. accepts env (docs s) p"
    and "case file of None \<Rightarrow> True | Some f \<Rightarrow> files s (f_path f) \<noteq> None"
  shows "\<exists>p s'. post_pokemons env raw file s = (Response 201 (DocBody p), s')"
  using assms
  by (cases "file")
     (auto simp: post_pokemons_def post_pokemons_try_def findOne_last_def save_def move_image_def
        renameSync_def Let_def split: option.splits list.splits)

section \<open>Identity allocation\<close>

text \<open>
  Claim C1. A creation that succeeds on a store whose greatest id is \<open>m\<close> returns a
  record of id \<open>m + 1\<close>, and of id 1 when the store is empty; that record is the one
  added to the store.
\<close>

theorem post_pokemons_identity:
  assumes "post_pokemons env raw file s = (Response 201 (DocBody p), s')"
  shows "p_id p = (if docs s = [] then 1 else Max (p_id ` set (docs s)) + 1) \<and>
         docs s' = docs s @ [p]"
proof -
  from post_pokemons_created [OF assms] have "post_pokemons_try env raw file s = Inr (p, s')"
    by simp
  from post_pokemons_try_Inr [OF this] show ?thesis .
qed

theorem post_pokemons_identity_witness:
  "post_pokemons open_env salameche_form None example_state =
     (Response 201 (DocBody (salameche default_image)),
      snd (post_pokemons open_env salameche_form None example_state))
   \<and> p_id (salameche default_image) = 26
   \<and> Max (p_id ` set (docs example_state)) = 25
   \<and> docs (snd (post_pokemons open_env salameche_form None example_state)) =
       [bulbizarre, pikachu, salameche default_image]"
  using post_pokemons_identity [OF with_snd [OF run_create_plain]] with_snd [OF run_create_plain]
  by (simp add: salameche_def example_state_def bulbizarre_def pikachu_def)

section \<open>Temporary files of a failed creation\<close>

text \<open>
  The failures of the \<open>try\<close> block with an upload: the store cannot be reached or the
  temporary file cannot be renamed, and the state is as it was; or the store rejects
  the document, and the temporary file has already been renamed.
\<close>

lemma post_pokemons_try_Inl:
  assumes "post_pokemons_try env raw (Some f) s = Inl (e, s1)"
  shows "(e \<noteq> ValidationError \<and> s1 = s) \<or>
         (e = ValidationError \<and> files s (f_path f) \<noteq> None \<and>
          s1 = s\<lparr>files := ((files s)(f_path f := None))
                 (final_path env
                    (string_of_int (if docs s = [] then 1 else Max (p_id ` set (docs s)) + 1) @
                     extname (f_originalname f)) := files s (f_path f))\<rparr>)"
  using assms findOne_last_id [of env "docs s"]
  by (auto simp: post_pokemons_try_def save_def move_image_def renameSync_def findOne_last_def Let_def
      split: sum.splits if_splits option.splits prod.splits)

lemma example_next_id:
  "(if docs example_state = [] then 1 else Max (p_id ` set (docs example_state)) + 1) = 26"
  by (simp add: example_state_def bulbizarre_def pikachu_def)

lemma upload_filename_photo:
  "upload_filename now ''photo.jpg'' = ''temp_'' @ string_of_int now @ ''.jpg''"
proof -
  have "extname ''photo.jpg'' = ''.jpg''" by code_simp
  then show ?thesis by (simp add: upload_filename_def)
qed

lemma example_upload:
  "f_path photo = temp_jpg"
  "temp_jpg = path_join [upload_destination strict_env, ''temp_1700000000000.jpg'']"
  "path_join [upload_destination strict_env, ''26.jpg''] = ''/app/assets/pokemons/26.jpg''"
  "final_path strict_env (string_of_int 26 @ extname (f_originalname photo)) =
     ''/app/assets/pokemons/26.jpg''"
  "temp_jpg \<noteq> ''/app/assets/pokemons/26.jpg''"
  by code_simp+

text \<open>
  Claim C7, as amended. When a creation with an uploaded file fails, the answer is the
  error with status 400, the store is as before and no file is left under the
  temporary name of the upload. When the failure comes before the rename (the store
  cannot be reached, the rename fails), the \<open>catch\<close> block deletes the temporary file
  and the file system is otherwise as before. When the store rejects the document,
  the upload has already been renamed and is not deleted: it stays in the asset
  directory under the text of the id followed by the extension.
\<close>

theorem post_pokemons_failure_cleanup:
  assumes "post_pokemons env raw (Some f) s = (Response st b, s')" and "st \<noteq> 201"
  shows "st = 400 \<and> docs s' = docs s \<and> files s' (f_path f) = None \<and>
         (b \<noteq> ErrorMessage ValidationError \<longrightarrow> files s' = (files s)(f_path f := None)) \<and>
         (b = ErrorMessage ValidationError \<longrightarrow>
            files s (f_path f) \<noteq> None \<and>
            files s' =
              ((files s)
                 (final_path env
                    (string_of_int (if docs s = [] then 1 else Max (p_id ` set (docs s)) + 1) @
                     extname (f_originalname f)) := files s (f_path f)))
              (f_path f := None))"
proof -
  from post_pokemons_failed [OF assms] obtain e s1 where
    failed: "post_pokemons_try env raw (Some f) s = Inl (e, s1)" and st: "st = 400" and
    b: "b = ErrorMessage e" and
    s': "s' = s1\<lparr>files := cleanup_temp (Some f) (files s1)\<rparr>"
    by blast
  from s' have files: "files s' = (files s1)(f_path f := None)"
    by (simp add: cleanup_temp_eq)
  from s' post_pokemons_try_Inl_docs [OF failed] have docs: "docs s' = docs s" by simp
  from post_pokemons_try_Inl [OF failed] show ?thesis
  proof
    assume "e \<noteq> ValidationError \<and> s1 = s"
    with st b files docs show ?thesis by simp
  next
    assume "e = ValidationError \<and> files s (f_path f) \<noteq> None \<and>
          s1 = s\<lparr>files := ((files s)(f_path f := None))
                 (final_path env
                    (string_of_int (if docs s = [] then 1 else Max (p_id ` set (docs s)) + 1) @
                     extname (f_originalname f)) := files s (f_path f))\<rparr>"
    with st b files docs show ?thesis by (auto simp: fun_eq_iff)
  qed
qed

theorem post_pokemons_failure_cleanup_witness:
  "fst (post_pokemons down_env salameche_form (Some photo) example_state) =
     Response 400 (ErrorMessage StoreError)
   \<and> files example_state temp_jpg = Some ''upload''
   \<and> files (snd (post_pokemons down_env salameche_form (Some photo) example_state)) =
       (files example_state)(temp_jpg := None)
   \<and> docs (snd (post_pokemons down_env salameche_form (Some photo) example_state)) =
       docs example_state
   \<and> fst (post_pokemons strict_env salameche_form (Some photo) example_state) =
       Response 400 (ErrorMessage ValidationError)
   \<and> files (snd (post_pokemons strict_env salameche_form (Some photo) example_state)) =
       ((files example_state)(''/app/assets/pokemons/26.jpg'' \<mapsto> ''upload''))(temp_jpg := None)
   \<and> docs (snd (post_pokemons strict_env salameche_form (Some photo) example_state)) =
       docs example_state"
proof -
  have ne: "(400 :: nat) \<noteq> 201" by simp
  have before: "files example_state temp_jpg = Some ''upload''" by code_simp
  note down = post_pokemons_failure_cleanup [OF with_snd [OF run_create_down] ne]
  note rejected = post_pokemons_failure_cleanup [OF with_snd [OF run_create_rejected] ne]
  from down rejected before show ?thesis
    by (simp add: run_create_down run_create_rejected example_next_id example_upload(1,4))
qed

text \<open>
  Against claim C7 as stated: the store rejects the document, the answer is 400, and
  the uploaded file has not been deleted. The upload middleware wrote it to the asset
  directory under its temporary name; after the failed creation the same directory
  holds it under the name \<^verbatim>\<open>26.jpg\<close>, which no record refers to.
\<close>

theorem post_pokemons_rejected_keeps_upload:
  "fst (post_pokemons strict_env salameche_form (Some photo) example_state) =
     Response 400 (ErrorMessage ValidationError)
   \<and> f_path photo = path_join [upload_destination strict_env, ''temp_1700000000000.jpg'']
   \<and> files example_state (f_path photo) = Some ''upload''
   \<and> files example_state (path_join [upload_destination strict_env, ''26.jpg'']) = None
   \<and> files (snd (post_pokemons strict_env salameche_form (Some photo) example_state))
        (path_join [upload_destination strict_env, ''26.jpg'']) = Some ''upload''"
  by code_simp

section \<open>The image of a created record\<close>

lemma js_includes_mid: "js_includes (a @ b @ c) b"
proof (induction a)
  case Nil
  show ?case
  proof (cases "b @ c")
    case Nil
    then show ?thesis by simp
  next
    case (Cons y ys)
    have "prefix b (b @ c)" by simp
    with Cons show ?thesis by simp
  qed
next
  case (Cons x a)
  then show ?case by simp
qed

lemma move_image_Inr:
  assumes "move_image env f t fs = Inr (url, fs')"
  shows "url = assets_url @ t @ extname (f_originalname f) \<and>
         fs' (final_path env (t @ extname (f_originalname f))) = fs (f_path f) \<and>
         fs (f_path f) \<noteq> None"
  using assms
  by (auto simp: move_image_def renameSync_def Let_def split: option.splits)

lemma post_pokemons_try_image:
  assumes "post_pokemons_try env raw file s = Inr (p, s')"
  shows "case file of
           None \<Rightarrow> p_image p = JStr default_image \<and> files s' = files s
         | Some f \<Rightarrow>
             (\<exists>url. move_image env f (string_of_int (p_id p)) (files s) = Inr (url, files s') \<and>
                    p_image p = JStr url)"
  using assms
  by (auto simp: post_pokemons_try_def save_def Let_def
      split: sum.splits if_splits option.splits prod.splits)

lemma example_names:
  "assets_url @ string_of_int (p_id (salameche u)) @ extname (f_originalname photo) =
     ''http://localhost:3000/assets/pokemons/26.jpg''"
  "final_path open_env (string_of_int (p_id (salameche u)) @ extname (f_originalname photo)) =
     ''/app/assets/pokemons/26.jpg''"
  "files example_state (f_path photo) = Some ''upload''"
  "files example_state default_png = Some ''placeholder''"
  by code_simp+

text \<open>
  Claim C8. A record created without an image has the default placeholder URL as its
  image, and the files are untouched. A record created with an image has the URL of
  the asset directory followed by the text of its id and by the extension of the
  uploaded file's original name, so the URL contains both; and after the operation
  the uploaded file is at the path of that name in the asset directory.
\<close>

theorem post_pokemons_image:
  "(post_pokemons env raw None s = (Response 201 (DocBody p), s') \<longrightarrow>
      p_image p = JStr default_image \<and> files s' = files s) \<and>
   (post_pokemons env raw (Some f) s = (Response 201 (DocBody p), s') \<longrightarrow>
      p_image p = JStr (assets_url @ string_of_int (p_id p) @ extname (f_originalname f)) \<and>
      js_includes (assets_url @ string_of_int (p_id p) @ extname (f_originalname f))
        (string_of_int (p_id p)) \<and>
      js_includes (assets_url @ string_of_int (p_id p) @ extname (f_originalname f))
        (extname (f_originalname f)) \<and>
      files s' (final_path env (string_of_int (p_id p) @ extname (f_originalname f))) =
        files s (f_path f) \<and>
      files s (f_path f) \<noteq> None)"
proof (intro conjI impI)
  assume run: "post_pokemons env raw None s = (Response 201 (DocBody p), s')"
  from post_pokemons_created [OF run] have "post_pokemons_try env raw None s = Inr (p, s')"
    by simp
  from post_pokemons_try_image [OF this]
  show "p_image p = JStr default_image" and "files s' = files s" by simp_all
next
  assume run: "post_pokemons env raw (Some f) s = (Response 201 (DocBody p), s')"
  from post_pokemons_created [OF run] have "post_pokemons_try env raw (Some f) s = Inr (p, s')"
    by simp
  from post_pokemons_try_image [OF this] obtain url where
    moved: "move_image env f (string_of_int (p_id p)) (files s) = Inr (url, files s')" and
    img: "p_image p = JStr url"
    by auto
  from move_image_Inr [OF moved] img
  show "p_image p = JStr (assets_url @ string_of_int (p_id p) @ extname (f_originalname f))"
    and "files s' (final_path env (string_of_int (p_id p) @ extname (f_originalname f))) =
        files s (f_path f)"
    and "files s (f_path f) \<noteq> None"
    by simp_all
  show "js_includes (assets_url @ string_of_int (p_id p) @ extname (f_originalname f))
        (string_of_int (p_id p))"
    by (rule js_includes_mid)
  show "js_includes (assets_url @ string_of_int (p_id p) @ extname (f_originalname f))
        (extname (f_originalname f))"
    using js_includes_mid [of "assets_url @ string_of_int (p_id p)" "extname (f_originalname f)" "[]"]
    by simp
qed

theorem post_pokemons_image_witness:
  "fst (post_pokemons open_env salameche_form None example_state) =
     Response 201 (DocBody (salameche default_image))
   \<and> p_image (salameche default_image) = JStr default_image
   \<and> files (snd (post_pokemons open_env salameche_form None example_state)) = files example_state
   \<and> fst (post_pokemons open_env salameche_form (Some photo) example_state) =
       Response 201 (DocBody (salameche ''http://localhost:3000/assets/pokemons/26.jpg''))
   \<and> p_image (salameche ''http://localhost:3000/assets/pokemons/26.jpg'') =
       JStr ''http://localhost:3000/assets/pokemons/26.jpg''
   \<and> files (snd (post_pokemons open_env salameche_form (Some photo) example_state))
        ''/app/assets/pokemons/26.jpg'' = Some ''upload''"
proof -
  note plain = post_pokemons_image
    [of open_env salameche_form example_state "salameche default_image"
      "snd (post_pokemons open_env salameche_form None example_state)" photo,
     THEN conjunct1, rule_format, OF with_snd [OF run_create_plain]]
  note upload = post_pokemons_image
    [of open_env salameche_form example_state
      "salameche ''http://localhost:3000/assets/pokemons/26.jpg''"
      "snd (post_pokemons open_env salameche_form (Some photo) example_state)" photo,
     THEN conjunct2, rule_format, OF with_snd [OF run_create_photo]]
  from plain upload show ?thesis
    by (simp add: run_create_plain run_create_photo example_names)
qed

section \<open>An update of a record that does not exist\<close>

lemma update_first_absent: "\<forall>x \<in> set xs. \<not> P x \<Longrightarrow> update_first P g xs = xs"
  by (induction xs) auto

lemma example_put:
  "db_ok open_env"
  "parseInt (JStr ''99'') 10 = JNum 99"
  "\<forall>p \<in> set (docs example_state). p_id p \<noteq> 99"
  "castable open_env u"
  "final_path open_env (string_of_int 99 @ extname (f_originalname photo)) =
     ''/app/assets/pokemons/99.jpg''"
  by (code_simp, code_simp, code_simp, simp add: open_env_def cast_all_def, code_simp)

text \<open>
  Claim C10. An update with an uploaded file, for an id that parses to a number no
  record of the store has, on a reachable store that can cast the update set: the
  uploaded file is first moved to the asset directory under the text of the id
  followed by the extension, and then the answer is 404; the file system has changed
  although nothing was found, and the store has not.
\<close>

theorem put_pokemon_not_found_moves_file:
  assumes "db_ok env"
    and "parseInt (JStr params_id) 10 = JNum n"
    and "\<forall>p \<in> set (docs s). p_id p \<noteq> n"
    and "files s (f_path f) = Some c"
    and "castable env (field_updates raw @
           [(''image'', JStr (assets_url @ string_of_int n @ extname (f_originalname f)))])"
  shows "put_pokemon env params_id raw (Some f) s =
           (Response 404 (ErrorBody ''Introuvable''),
            \<lparr>docs = docs s,
             files = ((files s)(f_path f := None))
               (final_path env (string_of_int n @ extname (f_originalname f)) \<mapsto> c)\<rparr>)"
proof -
  from assms(3) have not_found: "find (\<lambda>p. p_id p = n) (docs s) = None"
    by (simp add: find_None_iff)
  from assms(3) have same: "update_first (\<lambda>p. p_id p = n) g (docs s) = docs s" for g
    by (simp add: update_first_absent)
  from assms(4) have moved:
    "move_image env f (string_of_int n) (files s) =
       Inr (assets_url @ string_of_int n @ extname (f_originalname f),
            ((files s)(f_path f := None))
              (final_path env (string_of_int n @ extname (f_originalname f)) \<mapsto> c))"
    by (simp add: move_image_def renameSync_def Let_def)
  from assms(1,5) not_found same
  have "findOneAndUpdate env (docs s) (JNum n)
          (field_updates raw @
             [(''image'', JStr (assets_url @ string_of_int n @ extname (f_originalname f)))]) =
        Inr (docs s, None)"
    by (simp add: findOneAndUpdate_def)
  with assms(2) moved show ?thesis
    by (simp add: put_pokemon_def put_pokemon_try_def Let_def)
qed

theorem put_pokemon_not_found_moves_file_witness:
  "db_ok open_env
   \<and> parseInt (JStr ''99'') 10 = JNum 99
   \<and> files example_state (f_path photo) = Some ''upload''
   \<and> files example_state ''/app/assets/pokemons/99.jpg'' = None
   \<and> put_pokemon open_env ''99'' (hp_form (JStr ''50'')) (Some photo) example_state =
       (Response 404 (ErrorBody ''Introuvable''),
        \<lparr>docs = docs example_state,
         files = ((files example_state)(f_path photo := None))
                   (''/app/assets/pokemons/99.jpg'' \<mapsto> ''upload'')\<rparr>)"
proof -
  have "files example_state ''/app/assets/pokemons/99.jpg'' = None" by code_simp
  with put_pokemon_not_found_moves_file
    [OF example_put(1) example_put(2) example_put(3) example_names(3) example_put(4),
     of "hp_form (JStr ''50'')"]
  show ?thesis by (simp add: example_put(1,2,5) example_names(3))
qed

section \<open>The update set of the statistics\<close>

lemma map_of_stat_update:
  "map_of (stat_update raw k') k =
     (if k = k' \<and> truthy (raw_get raw k') then Some (parseInt (raw_get raw k') 0) else None)"
  by (simp add: stat_update_def)

lemma map_of_append_first:
  "map_of (xs @ ys) k = (case map_of xs k of Some v \<Rightarrow> Some v | None \<Rightarrow> map_of ys k)"
  by (simp add: map_add_def split: option.splits)

lemma map_of_field_updates:
  "list_all (\<lambda>(k, sel). map_of (field_updates raw) k =
       (if truthy (raw_get raw k) then Some (parseInt (raw_get raw k) 0) else None))
     stat_fields"
  unfolding field_updates_def map_of_append_first map_of_stat_update stat_fields_def
  by (simp del: map_of_append)

lemma apply_set_base:
  "HP (p_base (apply_set u p)) = set_field u ''base.HP'' (HP (p_base p))"
  "Attack (p_base (apply_set u p)) = set_field u ''base.Attack'' (Attack (p_base p))"
  "Defense (p_base (apply_set u p)) = set_field u ''base.Defense'' (Defense (p_base p))"
  "SpecialAttack (p_base (apply_set u p)) =
     set_field u ''base.SpecialAttack'' (SpecialAttack (p_base p))"
  "SpecialDefense (p_base (apply_set u p)) =
     set_field u ''base.SpecialDefense'' (SpecialDefense (p_base p))"
  "Speed (p_base (apply_set u p)) = set_field u ''base.Speed'' (Speed (p_base p))"
  by (simp_all add: apply_set_def)

lemma apply_set_stat_fields:
  "list_all (\<lambda>(k, sel). sel (p_base (apply_set u p)) = set_field u k (sel (p_base p))) stat_fields"
  by (simp add: stat_fields_def apply_set_base)

text \<open>
  Claim C5, as amended. A statistic is in the update set exactly when the value of its
  request field is truthy, that is present and not the empty string, the number 0,
  \<open>null\<close> or \<open>false\<close>, and its value there is the integer parsed from the field; the
  update then puts that value in the record, and leaves the statistic alone otherwise.
  The test is on the field. It is not on the parsed number: the text \<^verbatim>\<open>0\<close> is a
  non-empty string.
\<close>

theorem stat_update_iff_raw_truthy:
  assumes "(k, sel) \<in> set stat_fields"
  shows "map_of (field_updates raw) k =
           (if truthy (raw_get raw k) then Some (parseInt (raw_get raw k) 0) else None) \<and>
         sel (p_base (apply_set (field_updates raw) p)) =
           (if truthy (raw_get raw k) then parseInt (raw_get raw k) 0 else sel (p_base p))"
proof -
  from assms map_of_field_updates [of raw]
  have included: "map_of (field_updates raw) k =
      (if truthy (raw_get raw k) then Some (parseInt (raw_get raw k) 0) else None)"
    by (auto simp: list_all_iff)
  from assms apply_set_stat_fields [of "field_updates raw" p]
  have "sel (p_base (apply_set (field_updates raw) p)) =
      set_field (field_updates raw) k (sel (p_base p))"
    by (auto simp: list_all_iff)
  with included show ?thesis by (simp add: set_field_def)
qed

theorem stat_update_iff_raw_truthy_witness:
  "(''base.HP'', HP) \<in> set stat_fields
   \<and> truthy (raw_get (hp_form (JStr ''0'')) ''base.HP'')
   \<and> map_of (field_updates (hp_form (JStr ''0''))) ''base.HP'' = Some (JNum 0)
   \<and> HP (p_base (apply_set (field_updates (hp_form (JStr ''0''))) bulbizarre)) = JNum 0
   \<and> \<not> truthy (raw_get (hp_form (JStr [])) ''base.HP'')
   \<and> map_of (field_updates (hp_form (JStr []))) ''base.HP'' = None
   \<and> HP (p_base (apply_set (field_updates (hp_form (JStr []))) bulbizarre)) = JNum 45"
proof -
  have m: "(''base.HP'', HP) \<in> set stat_fields" by (simp add: stat_fields_def)
  have t: "truthy (raw_get (hp_form (JStr ''0'')) ''base.HP'')"
    and f: "\<not> truthy (raw_get (hp_form (JStr [])) ''base.HP'')"
    and z: "parseInt (raw_get (hp_form (JStr ''0'')) ''base.HP'') 0 = JNum 0"
    and b: "HP (p_base bulbizarre) = JNum 45"
    by code_simp+
  from stat_update_iff_raw_truthy [OF m, of "hp_form (JStr ''0'')" bulbizarre]
    stat_update_iff_raw_truthy [OF m, of "hp_form (JStr [])" bulbizarre] m t f z b
  show ?thesis by simp
qed

text \<open>
  Against claim C5 as stated: the form field \<^verbatim>\<open>base.HP=0\<close> parses to 0 and the update
  sets the statistic of the record, 45 before, to 0.
\<close>

theorem put_pokemon_zero_text_sets_zero:
  "parseInt (raw_get (hp_form (JStr ''0'')) ''base.HP'') 0 = JNum 0
   \<and> HP (p_base bulbizarre) = JNum 45
   \<and> fst (put_pokemon open_env ''1'' (hp_form (JStr ''0'')) None example_state) =
       Response 200 (DocBody (bulbizarre\<lparr>p_base := (p_base bulbizarre)\<lparr>HP := JNum 0\<rparr>\<rparr>))
   \<and> docs (snd (put_pokemon open_env ''1'' (hp_form (JStr ''0'')) None example_state)) =
       [bulbizarre\<lparr>p_base := (p_base bulbizarre)\<lparr>HP := JNum 0\<rparr>\<rparr>, pikachu]"
  by code_simp

section \<open>An update of one statistic\<close>

lemma field_updates_hp_form:
  "field_updates (hp_form v) = (if truthy v then [(''base.HP'', parseInt v 0)] else [])"
  by (simp add: field_updates_def stat_update_def hp_form_def raw_get_def)

lemma apply_set_hp:
  "apply_set [(''base.HP'', x)] p = p\<lparr>p_base := (p_base p)\<lparr>HP := x\<rparr>\<rparr>"
  "apply_set [] p = p"
  by (simp_all add: apply_set_def set_field_def)

lemma same_but_HP_apply: "same_but_HP p (apply_set (field_updates (hp_form v)) p)"
  by (simp add: field_updates_hp_form apply_set_hp same_but_HP_def)

lemma update_first_rel:
  assumes "\<And>x. R x x" and "\<And>x. P x \<Longrightarrow> R x (g x)"
  shows "list_all2 R xs (update_first P g xs)"
  by (induction xs) (auto simp: assms list.rel_refl)

lemma put_pokemon_no_file:
  assumes "put_pokemon env params_id raw None s = (r, s')"
  shows "files s' = files s \<and>
         (docs s' = docs s \<or>
          (\<exists>n. parseInt (JStr params_id) 10 = JNum n \<and>
               docs s' = update_first (\<lambda>p. p_id p = n) (apply_set (field_updates raw)) (docs s)))"
  using assms
  by (auto simp: put_pokemon_def put_pokemon_try_def findOneAndUpdate_def cleanup_temp_def Let_def
      split: sum.splits option.splits prod.splits if_splits jsval.splits)

lemma put_pokemon_found:
  assumes "db_ok env" and "castable env (field_updates raw)"
    and "parseInt (JStr params_id) 10 = JNum n"
    and "find (\<lambda>p. p_id p = n) (docs s) = Some p"
  shows "fst (put_pokemon env params_id raw None s) =
           Response 200 (DocBody (apply_set (field_updates raw) p))"
  using assms
  by (simp add: put_pokemon_def put_pokemon_try_def findOneAndUpdate_def Let_def)

text \<open>
  Claim C6. An update whose only field is \<open>base.HP\<close>, without a file, leaves the files
  as they are and every record of the store with its id, name, types, image and five
  other statistics; only a record of the addressed id can change at all. When the
  store is reachable and can cast the update set, the id parses to the id of a record
  and the field is truthy, the answer is that record with the parsed value as its HP.
\<close>

theorem put_pokemon_only_HP:
  assumes "put_pokemon env params_id (hp_form v) None s = (r, s')"
  shows "files s' = files s \<and>
         list_all2 same_but_HP (docs s) (docs s') \<and>
         list_all2 (\<lambda>p p'. p' = p \<or> JNum (p_id p) = parseInt (JStr params_id) 10) (docs s) (docs s') \<and>
         (db_ok env \<and> castable env (field_updates (hp_form v)) \<and>
          parseInt (JStr params_id) 10 = JNum n \<and>
          find (\<lambda>p. p_id p = n) (docs s) = Some p \<and> truthy v \<longrightarrow>
            r = Response 200 (DocBody (p\<lparr>p_base := (p_base p)\<lparr>HP := parseInt v 0\<rparr>\<rparr>)))"
proof (intro conjI impI)
  note frame = put_pokemon_no_file [OF assms]
  show "files s' = files s" using frame by simp
  have refl: "same_but_HP x x" for x by (simp add: same_but_HP_def)
  show "list_all2 same_but_HP (docs s) (docs s')"
    using frame update_first_rel [of same_but_HP _ "apply_set (field_updates (hp_form v))" "docs s"]
    by (auto simp: refl same_but_HP_apply list.rel_refl)
  show "list_all2 (\<lambda>p p'. p' = p \<or> JNum (p_id p) = parseInt (JStr params_id) 10) (docs s) (docs s')"
  proof -
    from frame consider "docs s' = docs s"
      | m where "parseInt (JStr params_id) 10 = JNum m"
          "docs s' = update_first (\<lambda>p. p_id p = m) (apply_set (field_updates (hp_form v))) (docs s)"
      by blast
    then show ?thesis
    proof cases
      case 1
      then show ?thesis by (simp add: list.rel_refl)
    next
      case 2
      show ?thesis
        unfolding 2
        by (rule update_first_rel) simp_all
    qed
  qed
next
  assume h: "db_ok env \<and> castable env (field_updates (hp_form v)) \<and>
          parseInt (JStr params_id) 10 = JNum n \<and>
          find (\<lambda>p. p_id p = n) (docs s) = Some p \<and> truthy v"
  with put_pokemon_found [of env "hp_form v" params_id n s p]
  have "fst (put_pokemon env params_id (hp_form v) None s) =
      Response 200 (DocBody (apply_set (field_updates (hp_form v)) p))"
    by simp
  with assms h show "r = Response 200 (DocBody (p\<lparr>p_base := (p_base p)\<lparr>HP := parseInt v 0\<rparr>\<rparr>))"
    by (simp add: field_updates_hp_form apply_set_hp)
qed

lemma example_update:
  "docs (snd (put_pokemon open_env ''1'' (hp_form (JStr ''50'')) None example_state)) =
     [bulbizarre\<lparr>p_base := (p_base bulbizarre)\<lparr>HP := JNum 50\<rparr>\<rparr>, pikachu]"
  "parseInt (JStr ''1'') 10 = JNum 1"
  "parseInt (JStr ''50'') 0 = JNum 50"
  "find (\<lambda>p. p_id p = 1) (docs example_state) = Some bulbizarre"
  "truthy (JStr ''50'')"
  "docs example_state = [bulbizarre, pikachu]"
  by code_simp+

theorem put_pokemon_only_HP_witness:
  "db_ok open_env
   \<and> parseInt (JStr ''1'') 10 = JNum 1
   \<and> find (\<lambda>p. p_id p = 1) (docs example_state) = Some bulbizarre
   \<and> truthy (JStr ''50'')
   \<and> fst (put_pokemon open_env ''1'' (hp_form (JStr ''50'')) None example_state) =
       Response 200 (DocBody (bulbizarre\<lparr>p_base := (p_base bulbizarre)\<lparr>HP := JNum 50\<rparr>\<rparr>))
   \<and> list_all2 same_but_HP [bulbizarre, pikachu]
        (docs (snd (put_pokemon open_env ''1'' (hp_form (JStr ''50'')) None example_state)))
   \<and> docs (snd (put_pokemon open_env ''1'' (hp_form (JStr ''50'')) None example_state)) =
       [bulbizarre\<lparr>p_base := (p_base bulbizarre)\<lparr>HP := JNum 50\<rparr>\<rparr>, pikachu]
   \<and> files (snd (put_pokemon open_env ''1'' (hp_form (JStr ''50'')) None example_state)) =
       files example_state"
proof -
  let ?run = "put_pokemon open_env ''1'' (hp_form (JStr ''50'')) None example_state"
  have run: "?run = (fst ?run, snd ?run)" by simp
  have env: "db_ok open_env" "castable open_env (field_updates (hp_form (JStr ''50'')))"
    by (simp_all add: open_env_def cast_all_def)
  note t = put_pokemon_only_HP [OF run, of 1 bulbizarre]
  from t have "files (snd ?run) = files example_state" by (rule conjunct1)
  moreover from t have "list_all2 same_but_HP (docs example_state) (docs (snd ?run))" by simp
  moreover from t env example_update
  have "fst ?run = Response 200 (DocBody (bulbizarre\<lparr>p_base := (p_base bulbizarre)\<lparr>HP := JNum 50\<rparr>\<rparr>))"
    by simp
  ultimately show ?thesis
    using env(1) example_update by simp
qed

section \<open>The statistics of a created record\<close>

lemma post_pokemons_try_base:
  "post_pokemons_try env raw file s = Inr (p, s') \<Longrightarrow> p_base p = base_of raw"
  by (auto simp: post_pokemons_try_def save_def Let_def
      split: sum.splits if_splits option.splits prod.splits)

lemma base_of_stat_fields:
  "list_all (\<lambda>(k, sel). sel (base_of raw) = stat_of raw k) stat_fields"
  by (simp add: stat_fields_def base_of_def)

lemma parseInt_zero: "parseInt (JNum 0) 0 = JNum 0"
  by code_simp

lemma stat_of_cases:
  "stat_of raw k = (if truthy (raw_get raw k) then parseInt (raw_get raw k) 0 else JNum 0)"
  by (simp add: stat_of_def js_or_def parseInt_zero)

text \<open>
  Text without digits is truthy and parses to \<open>NaN\<close>: the default 0 of
  \<open>parseInt(raw[k] || 0)\<close> does not apply to it.
\<close>

lemma stat_of_unparsable: "stat_of (hp_form (JStr ''abc'')) ''base.HP'' = JNaN"
  by code_simp

text \<open>
  Claim C4, as amended. In a record that a creation returns, each of the six statistics
  is 0 when its form field is absent or empty (falsy), and is the integer parsed from
  the field when the field is truthy and parses to an integer, whatever its sign.
\<close>

theorem post_pokemons_stats:
  assumes "post_pokemons env raw file s = (Response 201 (DocBody p), s')"
    and "(k, sel) \<in> set stat_fields"
  shows "(raw k = None \<longrightarrow> sel (p_base p) = JNum 0) \<and>
         (\<not> truthy (raw_get raw k) \<longrightarrow> sel (p_base p) = JNum 0) \<and>
         (\<forall>n. truthy (raw_get raw k) \<and> parseInt (raw_get raw k) 0 = JNum n \<longrightarrow>
               sel (p_base p) = JNum n)"
proof -
  from post_pokemons_created [OF assms(1)] have "post_pokemons_try env raw file s = Inr (p, s')"
    by simp
  then have "p_base p = base_of raw" by (rule post_pokemons_try_base)
  moreover from assms(2) base_of_stat_fields [of raw] have "sel (base_of raw) = stat_of raw k"
    by (auto simp: list_all_iff)
  ultimately have "sel (p_base p) =
      (if truthy (raw_get raw k) then parseInt (raw_get raw k) 0 else JNum 0)"
    by (simp add: stat_of_cases)
  then show ?thesis by (auto simp: raw_get_def)
qed

theorem post_pokemons_stats_witness:
  "fst (post_pokemons open_env salameche_form None example_state) =
     Response 201 (DocBody (salameche default_image))
   \<and> salameche_form ''base.Defense'' = None
   \<and> Defense (p_base (salameche default_image)) = JNum 0
   \<and> truthy (raw_get salameche_form ''base.HP'')
   \<and> parseInt (raw_get salameche_form ''base.HP'') 0 = JNum 39
   \<and> HP (p_base (salameche default_image)) = JNum 39"
proof -
  have d: "(''base.Defense'', Defense) \<in> set stat_fields" and h: "(''base.HP'', HP) \<in> set stat_fields"
    by (simp_all add: stat_fields_def)
  have facts: "salameche_form ''base.Defense'' = None"
    "truthy (raw_get salameche_form ''base.HP'')"
    "parseInt (raw_get salameche_form ''base.HP'') 0 = JNum 39"
    by code_simp+
  from post_pokemons_stats [OF with_snd [OF run_create_plain] d]
    post_pokemons_stats [OF with_snd [OF run_create_plain] h] facts run_create_plain
  show ?thesis by simp
qed

text \<open>
  Against claim C4 as stated: the form field \<^verbatim>\<open>base.Attack=-5\<close> gives a stored record
  whose Attack is \<open>- 5\<close>, which is negative.
\<close>

theorem post_pokemons_negative_stat:
  "fst (post_pokemons open_env salameche_form None example_state) =
     Response 201 (DocBody (salameche default_image))
   \<and> salameche_form ''base.Attack'' = Some (JStr ''-5'')
   \<and> Attack (p_base (salameche default_image)) = JNum (- 5)
   \<and> \<not> non_negative (Attack (p_base (salameche default_image)))
   \<and> docs (snd (post_pokemons open_env salameche_form None example_state)) =
       [bulbizarre, pikachu, salameche default_image]"
  by code_simp

section \<open>Search\<close>

lemma compile_fragment_plain:
  "\<forall>c \<in> set q. plain_char c \<Longrightarrow> compile_fragment q = Some (map Lit q)"
  by (induction q) (auto simp: plain_char_def is_meta_def)

lemma match_here_plain:
  "match_here (map Lit q) s = prefix (map to_lower q) (map to_lower s)"
proof (induction q arbitrary: s)
  case Nil
  then show ?case by simp
next
  case (Cons c q)
  then show ?case by (cases s) auto
qed

lemma match_anywhere_plain: "match_anywhere (map Lit q) s = contains_ci q s"
proof (induction s)
  case Nil
  show ?case by (cases q) (simp_all add: contains_ci_def)
next
  case (Cons c s)
  then show ?case
    by (simp add: contains_ci_def match_here_plain sublist_Cons_right)
qed

lemma js_trim_Nil: "js_trim [] = []"
  by (simp add: js_trim_def)

text \<open>
  Claim C3, as amended. An absent, empty or blank query gives the empty list whatever
  the store holds. A query that is not blank and is made of ASCII characters none of
  which is a metacharacter of regular expressions gives, on a reachable store, exactly
  the records whose name contains it as a case-insensitive substring, in the order of
  the store.
\<close>

theorem search_plain_query:
  "get_pokemons_search env JUndefined s = Response 200 (DocsBody []) \<and>
   (js_trim q = [] \<longrightarrow> get_pokemons_search env (JStr q) s = Response 200 (DocsBody [])) \<and>
   (js_trim q \<noteq> [] \<and> (\<forall>c \<in> set q. plain_char c) \<and> db_ok env \<longrightarrow>
      get_pokemons_search env (JStr q) s =
        Response 200 (DocsBody (filter (name_contains q) (docs s))))"
proof (intro conjI impI)
  show "get_pokemons_search env JUndefined s = Response 200 (DocsBody [])"
    by (simp add: get_pokemons_search_def js_or_def js_trim_Nil)
next
  assume "js_trim q = []"
  then show "get_pokemons_search env (JStr q) s = Response 200 (DocsBody [])"
    by (simp add: get_pokemons_search_def js_or_def js_trim_Nil)
next
  assume h: "js_trim q \<noteq> [] \<and> (\<forall>c \<in> set q. plain_char c) \<and> db_ok env"
  then have "q \<noteq> []" by (auto simp: js_trim_Nil)
  moreover from h have "regex_i env q = Some (match_anywhere (map Lit q))"
    by (simp add: regex_i_def compile_fragment_plain)
  moreover have "match_anywhere (map Lit q) = contains_ci q"
    by (rule ext) (rule match_anywhere_plain)
  moreover have "name_contains q = (\<lambda>p. field_matches (contains_ci q) (p_name_french p))"
    by (rule ext) (simp add: name_contains_def)
  ultimately show "get_pokemons_search env (JStr q) s =
      Response 200 (DocsBody (filter (name_contains q) (docs s)))"
    using h by (simp add: get_pokemons_search_def js_or_def find_regex_def)
qed

theorem search_plain_query_witness:
  "get_pokemons_search open_env JUndefined example_state = Response 200 (DocsBody [])
   \<and> js_trim ''   '' = []
   \<and> get_pokemons_search open_env (JStr ''   '') example_state = Response 200 (DocsBody [])
   \<and> js_trim ''PIKA'' \<noteq> []
   \<and> db_ok open_env
   \<and> filter (name_contains ''PIKA'') (docs example_state) = [pikachu]
   \<and> get_pokemons_search open_env (JStr ''PIKA'') example_state = Response 200 (DocsBody [pikachu])"
proof -
  have blank: "js_trim ''   '' = []" and word: "js_trim ''PIKA'' \<noteq> []"
    and plain: "\<forall>c \<in> set ''PIKA''. plain_char c" and ok: "db_ok open_env"
    and found: "filter (name_contains ''PIKA'') (docs example_state) = [pikachu]"
    by code_simp+
  from search_plain_query [of open_env example_state "''   ''"]
    search_plain_query [of open_env example_state "''PIKA''"] blank word plain ok found
  show ?thesis by simp
qed

text \<open>
  Against claim C3 as stated: the query is a regular expression. The query \<^verbatim>\<open>.\<close> is
  not blank and returns both records of the example, and neither name contains a dot.
\<close>

theorem search_dot_matches_every_name:
  "js_trim ''.'' \<noteq> []
   \<and> get_pokemons_search open_env (JStr ''.'') example_state =
       Response 200 (DocsBody [bulbizarre, pikachu])
   \<and> filter (name_contains ''.'') (docs example_state) = []"
  by code_simp

section \<open>Pagination\<close>





section \<open>Deletion and the placeholder image\<close>

text \<open>
  The image of a record that the creation route built from an upload is the URL of the
  asset directory followed by a file name without a slash. The deletion of such a
  record removes the file of that name from the asset directory, if it is there, and
  then the record.
\<close>

lemma split_from_no_slash:
  "CHR ''/'' \<notin> set name \<Longrightarrow> split_from (CHR ''/'' # sep) cur name = [rev cur @ name]"
  by (induction name arbitrary: cur) auto

lemma split_assets_url:
  "CHR ''/'' \<notin> set name \<Longrightarrow>
     js_split (assets_url @ name) ''/assets/pokemons/'' = [''http://localhost:3000'', name]"
  by (simp add: js_split_def assets_url_def split_from_no_slash)

lemma includes_assets_url: "js_includes (assets_url @ name) ''/assets/pokemons/''"
  using js_includes_mid [of "''http://localhost:3000''" "''/assets/pokemons/''" name]
  by (simp add: assets_url_def)

lemma remove_image_local:
  assumes "CHR ''/'' \<notin> set name"
  shows "remove_image env (JStr (assets_url @ name)) fs = Inr (fs(final_path env name := None))"
proof -
  have "truthy (JStr (assets_url @ name))" by (simp add: assets_url_def)
  moreover have "fs(final_path env name := None) = fs" if "fs (final_path env name) = None"
    using that by (simp add: fun_upd_idem)
  ultimately show ?thesis
    using assms
    by (auto simp: remove_image_def includes_assets_url split_assets_url js_nth_def final_path_def
        existsSync_def unlinkSync_def Let_def split: option.splits)
qed

lemma delete_pokemon_local_asset:
  assumes "db_ok env" and "parseInt (JStr params_id) 10 = JNum n"
    and "find (\<lambda>p. p_id p = n) (docs s) = Some p"
    and "p_image p = JStr (assets_url @ name)" and "CHR ''/'' \<notin> set name"
  shows "delete_pokemon env params_id s =
           (Response 200 (MessageBody deleted_message),
            \<lparr>docs = remove_first (\<lambda>p. p_id p = n) (docs s),
             files = (files s)(final_path env name := None)\<rparr>)"
  using assms
  by (simp add: delete_pokemon_def findOne_id_def findOneAndDelete_def remove_image_local Let_def)

text \<open>
  The placeholder is such an image too, with the file name \<^verbatim>\<open>default.png\<close>: the deletion
  of any record that has it removes that file.
\<close>

lemma default_image_local: "default_image = assets_url @ ''default.png''"
  by (simp add: default_image_def assets_url_def)

lemma delete_pokemon_placeholder:
  assumes "db_ok env" and "parseInt (JStr params_id) 10 = JNum n"
    and "find (\<lambda>p. p_id p = n) (docs s) = Some p"
    and "p_image p = JStr default_image"
  shows "delete_pokemon env params_id s =
           (Response 200 (MessageBody deleted_message),
            \<lparr>docs = remove_first (\<lambda>p. p_id p = n) (docs s),
             files = (files s)(final_path env ''default.png'' := None)\<rparr>)"
  using assms(4) delete_pokemon_local_asset [OF assms(1-3), of "''default.png''"]
  by (simp add: default_image_local)

text \<open>
  On claim C2. The default placeholder URL itself includes \<^verbatim>\<open>/assets/pokemons/\<close>, so the
  deletion of a record that has it takes \<^verbatim>\<open>default.png\<close> for the record's file and
  removes it from the asset directory: the record of id 1 has the placeholder, the
  file is there before the deletion and gone after it.
\<close>

theorem delete_pokemon_removes_placeholder:
  "p_image bulbizarre = JStr default_image
   \<and> files example_state default_png = Some ''placeholder''
   \<and> fst (delete_pokemon open_env ''1'' example_state) = Response 200 (MessageBody deleted_message)
   \<and> docs (snd (delete_pokemon open_env ''1'' example_state)) = [pikachu]
   \<and> files (snd (delete_pokemon open_env ''1'' example_state)) default_png = None"
  by code_simp

end
